theory Spec2Isabelle
  imports Complex_Main "HOL-Library.Sublist"
begin

section \<open>Portfolio Projection: the quote resolver and the row view-model of App.jsx\<close>

subsection \<open>JavaScript numbers\<close>

text \<open>
  A JavaScript number is modelled as an exact rational extended by \<open>NaN\<close> and the two
  infinities. Rounding to binary64 and the sign of zero are not part of the model.
\<close>

datatype jsnum = NaN | NInf | Fin rat | PInf

fun isNaN :: "jsnum \<Rightarrow> bool" where
  "isNaN NaN = True"
| "isNaN _ = False"

fun js_neg :: "jsnum \<Rightarrow> jsnum" where
  "js_neg NaN = NaN"
| "js_neg NInf = PInf"
| "js_neg PInf = NInf"
| "js_neg (Fin a) = Fin (- a)"










subsection \<open>Strings\<close>

text \<open>
  A string is a list of 8-bit characters holding ASCII text. Case mapping and white space
  are the ASCII ones; characters outside ASCII are left as they are, and the strings with
  a lone surrogate, on which \<open>encodeURIComponent\<close> throws, are not among the strings
  modelled.
\<close>

definition is_upper :: "char \<Rightarrow> bool" where
  "is_upper c = (65 \<le> (of_char c :: nat) \<and> (of_char c :: nat) \<le> 90)"

definition is_lower :: "char \<Rightarrow> bool" where
  "is_lower c = (97 \<le> (of_char c :: nat) \<and> (of_char c :: nat) \<le> 122)"

definition is_digit :: "char \<Rightarrow> bool" where
  "is_digit c = (48 \<le> (of_char c :: nat) \<and> (of_char c :: nat) \<le> 57)"

definition lower_char :: "char \<Rightarrow> char" where
  "lower_char c = (if is_upper c then char_of ((of_char c :: nat) + 32) else c)"

definition toLowerCase :: "string \<Rightarrow> string" where
  "toLowerCase s = map lower_char s"

text \<open>White space and line terminators: tab, LF, VT, FF, CR and space.\<close>

definition is_space :: "char \<Rightarrow> bool" where
  "is_space c = (c \<in> set [CHR 0x09, CHR 0x0A, CHR 0x0B, CHR 0x0C, CHR 0x0D, CHR 0x20])"

definition trim :: "string \<Rightarrow> string" where
  "trim s = rev (dropWhile is_space (rev (dropWhile is_space s)))"

text \<open>\<open>s.split(',')\<close>: the pieces between the separators; never an empty list.\<close>

fun split_on :: "char \<Rightarrow> string \<Rightarrow> string \<Rightarrow> string list" where
  "split_on sep acc [] = [rev acc]"
| "split_on sep acc (c # cs) =
     (if c = sep then rev acc # split_on sep [] cs else split_on sep (c # acc) cs)"

text \<open>\<open>s.split(/\r?\n/)\<close>: a line ends at LF, or at CR directly followed by LF.\<close>

fun split_lines :: "string \<Rightarrow> string \<Rightarrow> string list" where
  "split_lines acc [] = [rev acc]"
| "split_lines acc (c # cs) =
     (if c = CHR 0x0A then rev acc # split_lines [] cs
      else if c = CHR 0x0D \<and> cs \<noteq> [] \<and> hd cs = CHR 0x0A then rev acc # split_lines [] (tl cs)
      else split_lines (c # acc) cs)"

text \<open>\<open>xs[i]\<close>, with \<open>None\<close> for \<open>undefined\<close> out of range.\<close>

definition index :: "'a list \<Rightarrow> nat \<Rightarrow> 'a option" where
  "index xs i = (if i < length xs then Some (xs ! i) else None)"

subsection \<open>parseFloat\<close>

definition digit_val :: "char \<Rightarrow> nat" where
  "digit_val c = (of_char c :: nat) - 48"

definition digits_val :: "string \<Rightarrow> nat" where
  "digits_val ds = foldl (\<lambda>n c. 10 * n + digit_val c) 0 ds"

text \<open>
  The exponent part \<open>e\<close>, an optional sign and at least one digit; when no digit follows,
  the literal ends before the \<open>e\<close> and the exponent is \<open>0\<close>.
\<close>

definition exponent_part :: "string \<Rightarrow> int" where
  "exponent_part r =
     (case r of
        [] \<Rightarrow> 0
      | c # r1 \<Rightarrow>
          if c = CHR ''e'' \<or> c = CHR ''E'' then
            (case r1 of
               [] \<Rightarrow> 0
             | s # r2 \<Rightarrow>
                 if s = CHR ''+'' then int (digits_val (takeWhile is_digit r2))
                 else if s = CHR ''-'' then - int (digits_val (takeWhile is_digit r2))
                 else int (digits_val (takeWhile is_digit r1)))
          else 0)"

definition scale10 :: "rat \<Rightarrow> int \<Rightarrow> rat" where
  "scale10 m e = (if 0 \<le> e then m * 10 ^ nat e else m / 10 ^ nat (- e))"

text \<open>
  The longest prefix that is an unsigned decimal literal: \<open>Infinity\<close>, digits with an
  optional fraction, or a dot followed by digits, each with an optional exponent.
  No such prefix gives \<open>NaN\<close>.
\<close>

definition unsigned_literal :: "string \<Rightarrow> jsnum" where
  "unsigned_literal r =
     (if prefix ''Infinity'' r then PInf
      else
        let ip = takeWhile is_digit r;
            r1 = dropWhile is_digit r;
            fp = (case r1 of [] \<Rightarrow> [] | c # r2 \<Rightarrow> if c = CHR ''.'' then takeWhile is_digit r2 else []);
            r3 = (case r1 of [] \<Rightarrow> [] | c # r2 \<Rightarrow> if c = CHR ''.'' then dropWhile is_digit r2 else r1)
        in if ip = [] \<and> fp = [] then NaN
           else Fin (scale10 (of_nat (digits_val ip) + of_nat (digits_val fp) / 10 ^ length fp)
                       (exponent_part r3)))"

definition parseFloat :: "string \<Rightarrow> jsnum" where
  "parseFloat s =
     (case dropWhile is_space s of
        [] \<Rightarrow> NaN
      | c # r \<Rightarrow>
          if c = CHR ''+'' then unsigned_literal r
          else if c = CHR ''-'' then js_neg (unsigned_literal r)
          else unsigned_literal (c # r))"

subsection \<open>Values of parsed JSON\<close>

text \<open>
  What \<open>res.json()\<close> resolves to. An object is its list of properties, read with
  \<open>map_of\<close>. \<open>JUndefined\<close> is the value of a missing property.
\<close>

datatype jsval =
    JUndefined
  | JNull
  | JBool bool
  | JNumber jsnum
  | JString string
  | JArray "jsval list"
  | JObject "(string \<times> jsval) list"

definition nullish :: "jsval \<Rightarrow> bool" where
  "nullish v = (v = JUndefined \<or> v = JNull)"

text \<open>\<open>a ?? b\<close>\<close>

definition coalesce :: "jsval \<Rightarrow> jsval \<Rightarrow> jsval" where
  "coalesce a b = (if nullish a then b else a)"

text \<open>
  \<open>v.k\<close> for a property name \<open>k\<close> that is neither an index nor inherited: only an object
  can have it.
\<close>

fun get_prop :: "jsval \<Rightarrow> string \<Rightarrow> jsval" where
  "get_prop (JObject kvs) k = (case map_of kvs k of None \<Rightarrow> JUndefined | Some v \<Rightarrow> v)"
| "get_prop _ k = JUndefined"

text \<open>\<open>v?.k\<close>\<close>

definition opt_prop :: "jsval \<Rightarrow> string \<Rightarrow> jsval" where
  "opt_prop v k = (if nullish v then JUndefined else get_prop v k)"

text \<open>
  \<open>v?.[0]\<close>: the first element of an array, the first character of a string, the
  property \<open>"0"\<close> of an object.
\<close>

fun opt_first :: "jsval \<Rightarrow> jsval" where
  "opt_first (JArray xs) = (case xs of [] \<Rightarrow> JUndefined | x # _ \<Rightarrow> x)"
| "opt_first (JString s) = (case s of [] \<Rightarrow> JUndefined | c # _ \<Rightarrow> JString [c])"
| "opt_first (JObject kvs) = (case map_of kvs ''0'' of None \<Rightarrow> JUndefined | Some v \<Rightarrow> v)"
| "opt_first _ = JUndefined"

text \<open>
  \<open>if (typeof price === 'number' && !isNaN(price)) return price\<close>: the number returned,
  or \<open>None\<close> when the test fails.
\<close>

fun valid_price :: "jsval \<Rightarrow> jsnum option" where
  "valid_price (JNumber n) = (if \<not> isNaN n then Some n else None)"
| "valid_price _ = None"

subsection \<open>The network\<close>

text \<open>
  A response has its \<open>ok\<close> flag and what \<open>json()\<close> and \<open>text()\<close> resolve to, \<open>None\<close> when
  that promise rejects (a body that is not JSON, a body that cannot be read).
  \<open>fetch\<close> is a function of the URL; \<open>None\<close> is a rejected \<open>fetch\<close> (a network error).
\<close>

record response =
  ok :: bool
  json :: "jsval option"
  text_body :: "string option"

type_synonym fetch = "string \<Rightarrow> response option"

datatype exn = FetchRejected | BodyRejected | TypeError

subsection \<open>encodeURIComponent and the three URLs\<close>

definition unreserved :: "char \<Rightarrow> bool" where
  "unreserved c = (is_upper c \<or> is_lower c \<or> is_digit c \<or>
     c \<in> set [CHR ''-'', CHR ''_'', CHR ''.'', CHR ''!'', CHR ''~'', CHR ''*'', CHR 0x27,
       CHR ''('', CHR '')''])"

definition hex_digit :: "nat \<Rightarrow> char" where
  "hex_digit n = ''0123456789ABCDEF'' ! (n mod 16)"

definition encode_char :: "char \<Rightarrow> string" where
  "encode_char c =
     (if unreserved c then [c]
      else [CHR ''%'', hex_digit ((of_char c :: nat) div 16), hex_digit ((of_char c :: nat) mod 16)])"

definition encodeURIComponent :: "string \<Rightarrow> string" where
  "encodeURIComponent s = concat (map encode_char s)"

definition proxyBase :: string where
  "proxyBase = ''https://api.allorigins.win/raw?url=''"

definition quoteEndpoint :: "string \<Rightarrow> string" where
  "quoteEndpoint ticker =
     ''https://query1.finance.yahoo.com/v7/finance/quote?symbols='' @ encodeURIComponent ticker"

definition chartEndpoint :: "string \<Rightarrow> string" where
  "chartEndpoint ticker =
     ''https://query1.finance.yahoo.com/v8/finance/chart/'' @ encodeURIComponent ticker
       @ ''?range=1d&interval=1d''"

definition stooqUrl :: "string \<Rightarrow> string" where
  "stooqUrl symbol = ''https://stooq.pl/q/l/?s='' @ encodeURIComponent symbol @ ''&f=sd2t2ohlcvn&h&e=csv''"

text \<open>The URL that is fetched: the endpoint behind the proxy.\<close>

definition proxied :: "string \<Rightarrow> string" where
  "proxied url = proxyBase @ encodeURIComponent url"

subsection \<open>fetchCurrentPrice\<close>

text \<open>
  Each \<open>try\<close> block is a function to \<open>exn + jsnum option\<close>: \<open>Inl\<close> is an exception thrown
  inside the block, \<open>Inr (Some p)\<close> is \<open>return p\<close>, \<open>Inr None\<close> is the end of the block
  reached without a return.
\<close>

definition quote_price :: "jsval \<Rightarrow> jsnum option" where
  "quote_price quoteData =
     (let result = coalesce (opt_first (opt_prop (opt_prop quoteData ''quoteResponse'') ''result''))
                     (JObject []);
          price = coalesce (get_prop result ''regularMarketPrice'')
                    (coalesce (get_prop result ''regularMarketPreviousClose'') JNull)
      in valid_price price)"

definition quote_try :: "fetch \<Rightarrow> string \<Rightarrow> exn + jsnum option" where
  "quote_try fetch ticker =
     (case fetch (proxied (quoteEndpoint ticker)) of
        None \<Rightarrow> Inl FetchRejected
      | Some quoteRes \<Rightarrow>
          if ok quoteRes then
            (case json quoteRes of
               None \<Rightarrow> Inl BodyRejected
             | Some quoteData \<Rightarrow> Inr (quote_price quoteData))
          else Inr None)"

definition chart_price :: "jsval \<Rightarrow> jsnum option" where
  "chart_price chartData =
     (let meta = coalesce (opt_prop (opt_first (opt_prop (opt_prop chartData ''chart'') ''result''))
                   ''meta'') (JObject []);
          price = coalesce (get_prop meta ''regularMarketPrice'')
                    (coalesce (get_prop meta ''chartPreviousClose'') JNull)
      in valid_price price)"

definition chart_try :: "fetch \<Rightarrow> string \<Rightarrow> exn + jsnum option" where
  "chart_try fetch ticker =
     (case fetch (proxied (chartEndpoint ticker)) of
        None \<Rightarrow> Inl FetchRejected
      | Some chartRes \<Rightarrow>
          if ok chartRes then
            (case json chartRes of
               None \<Rightarrow> Inl BodyRejected
             | Some chartData \<Rightarrow> Inr (chart_price chartData))
          else Inr None)"

text \<open>The symbol for Stooq, computed between the second and the third \<open>try\<close> block.\<close>

definition stooqSymbol :: "string \<Rightarrow> string" where
  "stooqSymbol ticker =
     (let s = toLowerCase ticker
      in if s \<noteq> [] \<and> list_all (\<lambda>c. is_lower c \<or> is_upper c) s then s @ ''.us''
         else if suffix ''-usd'' s then take (length s - 4) s @ ''.v''
         else s)"

text \<open>
  The rule for the Stooq symbol in the words of the specification: a purely alphabetic
  ticker gets \<open>.us\<close>, a ticker that ends with \<open>-usd\<close> gets that suffix replaced by
  \<open>.v\<close>, any other ticker is passed on, all in lower case.
\<close>

definition purely_alphabetic :: "string \<Rightarrow> bool" where
  "purely_alphabetic s = (s \<noteq> [] \<and> (\<forall>c \<in> set s. is_lower c \<or> is_upper c))"

definition stooq_symbol_spec :: "string \<Rightarrow> string" where
  "stooq_symbol_spec ticker =
     (let s = toLowerCase ticker
      in if purely_alphabetic s then s @ ''.us''
         else if suffix ''-usd'' s then take (length s - length ''-usd'') s @ ''.v''
         else s)"

text \<open>
  The close of a CSV body: the seventh field of the second line. A missing field is
  \<open>undefined\<close>, which \<open>parseFloat\<close> reads as the string \<open>undefined\<close>.
\<close>

definition csv_close :: "string \<Rightarrow> jsnum option" where
  "csv_close csv =
     (let lines = split_lines [] (trim csv)
      in if length lines > 1 then
           (let parts = split_on (CHR '','') [] (lines ! 1);
                close = parseFloat (case index parts 6 of None \<Rightarrow> ''undefined'' | Some f \<Rightarrow> f)
            in if \<not> isNaN close then Some close else None)
         else None)"

definition stooq_try :: "fetch \<Rightarrow> string \<Rightarrow> exn + jsnum option" where
  "stooq_try fetch symbol =
     (case fetch (proxied (stooqUrl symbol)) of
        None \<Rightarrow> Inl FetchRejected
      | Some stooqRes \<Rightarrow>
          if ok stooqRes then
            (case text_body stooqRes of
               None \<Rightarrow> Inl BodyRejected
             | Some csv \<Rightarrow> Inr (csv_close csv))
          else Inr None)"

text \<open>
  \<open>try { ... } catch { }\<close>: an exception of the block is dropped and the function goes on
  as if the block had ended.
\<close>

definition catch_ignore :: "exn + jsnum option \<Rightarrow> jsnum option" where
  "catch_ignore r = (case r of Inl _ \<Rightarrow> None | Inr p \<Rightarrow> p)"

text \<open>
  The result is paired with the URLs fetched, in order. \<open>Inl\<close> would be an exception
  that leaves \<open>fetchCurrentPrice\<close>; \<open>Inr None\<close> is \<open>null\<close>.
\<close>

definition fetchCurrentPrice :: "fetch \<Rightarrow> string \<Rightarrow> (exn + jsnum option) \<times> string list" where
  "fetchCurrentPrice fetch ticker =
     (if ticker = [] then (Inr None, [])
      else
        case catch_ignore (quote_try fetch ticker) of
          Some price \<Rightarrow> (Inr (Some price), [proxied (quoteEndpoint ticker)])
        | None \<Rightarrow>
            (case catch_ignore (chart_try fetch ticker) of
               Some price \<Rightarrow>
                 (Inr (Some price), [proxied (quoteEndpoint ticker), proxied (chartEndpoint ticker)])
             | None \<Rightarrow>
                 (Inr (catch_ignore (stooq_try fetch (stooqSymbol ticker))),
                  [proxied (quoteEndpoint ticker), proxied (chartEndpoint ticker),
                   proxied (stooqUrl (stooqSymbol ticker))])))"

subsection \<open>Position rows and their updates\<close>

text \<open>
  A row of the \<open>assets\<close> state. \<open>currentPrice\<close> and \<open>error\<close> are \<open>None\<close> for \<open>null\<close>.
  The field \<open>id\<close> is named \<open>id_key\<close>.
\<close>

record asset =
  id_key :: string
  ticker :: string
  shares :: jsnum
  currentPrice :: "jsnum option"
  targetPrice :: jsnum
  loading :: bool
  error :: "string option"

text \<open>The blank row of \<open>useState\<close>, \<open>addRow\<close> and \<open>removeRow\<close>, for a given id.\<close>

definition blank_row :: "string \<Rightarrow> asset" where
  "blank_row i =
     \<lparr>id_key = i, ticker = [], shares = Fin 0, currentPrice = None, targetPrice = Fin 0,
      loading = False, error = None\<rparr>"

text \<open>
  Each operation is the function that it passes to \<open>setAssets\<close>, from the previous list
  to the next one.
\<close>

definition updateTicker :: "string \<Rightarrow> string \<Rightarrow> asset list \<Rightarrow> asset list" where
  "updateTicker i t prev =
     map (\<lambda>a. if id_key a = i
               then a\<lparr>ticker := t, currentPrice := None, loading := False, error := None\<rparr>
               else a) prev"

definition updateShares :: "string \<Rightarrow> string \<Rightarrow> asset list \<Rightarrow> asset list" where
  "updateShares i input prev =
     (let parsed = parseFloat input
      in map (\<lambda>a. if id_key a = i then a\<lparr>shares := (if isNaN parsed then Fin 0 else parsed)\<rparr>
                   else a) prev)"

definition updateTarget :: "string \<Rightarrow> string \<Rightarrow> asset list \<Rightarrow> asset list" where
  "updateTarget i input prev =
     (let parsed = parseFloat input
      in map (\<lambda>a. if id_key a = i then a\<lparr>targetPrice := (if isNaN parsed then Fin 0 else parsed)\<rparr>
                   else a) prev)"

text \<open>\<open>addRow\<close>, with the id that \<open>genId()\<close> returned.\<close>

definition addRow :: "string \<Rightarrow> asset list \<Rightarrow> asset list" where
  "addRow new_id prev = prev @ [blank_row new_id]"

text \<open>
  \<open>removeRow\<close> reads \<open>prev[0].id\<close>; on a list with no first element that read would throw
  a \<open>TypeError\<close>, which is the \<open>Inl\<close> of the result.
\<close>

definition removeRow :: "string \<Rightarrow> asset list \<Rightarrow> exn + asset list" where
  "removeRow i prev =
     (if length prev = 1 then
        (case index prev 0 of
           None \<Rightarrow> Inl TypeError
         | Some first \<Rightarrow> Inr [blank_row (id_key first)])
      else Inr (filter (\<lambda>a. id_key a \<noteq> i) prev))"

subsection \<open>fetchAllPrices\<close>

text \<open>The first \<open>setAssets\<close>: every row with a ticker is marked as loading.\<close>

definition mark_loading :: "asset list \<Rightarrow> asset list" where
  "mark_loading prev =
     map (\<lambda>a. if ticker a \<noteq> [] then a\<lparr>loading := True, error := None, currentPrice := None\<rparr>
               else a) prev"

datatype fetch_result =
  Result (r_id: string) (r_price: "jsnum option") (r_error: "string option")

text \<open>The callback of \<open>assets.map\<close>: one row's result, or the exception it throws.\<close>

definition row_result :: "fetch \<Rightarrow> asset \<Rightarrow> exn + fetch_result" where
  "row_result fetch a =
     (if ticker a = [] then Inr (Result (id_key a) None None)
      else
        case fst (fetchCurrentPrice fetch (ticker a)) of
          Inl e \<Rightarrow> Inl e
        | Inr price \<Rightarrow>
            Inr (Result (id_key a) price
                   (if price = None then Some ''Price unavailable'' else None)))"

text \<open>\<open>Promise.all\<close>: all the results, or the first rejection.\<close>

fun promise_all :: "(exn + 'a) list \<Rightarrow> exn + 'a list" where
  "promise_all [] = Inr []"
| "promise_all (Inl e # ps) = Inl e"
| "promise_all (Inr x # ps) = (case promise_all ps of Inl e \<Rightarrow> Inl e | Inr xs \<Rightarrow> Inr (x # xs))"

text \<open>
  The results of a round, computed from \<open>assets\<close> as the handler sees it: the list
  at the time the round starts.
\<close>

definition fetch_results :: "fetch \<Rightarrow> asset list \<Rightarrow> exn + fetch_result list" where
  "fetch_results fetch assets = promise_all (map (row_result fetch) assets)"

text \<open>The last \<open>setAssets\<close>: the results are written to the list as it is then.\<close>

definition commit_results :: "fetch_result list \<Rightarrow> asset list \<Rightarrow> asset list" where
  "commit_results results prev =
     map (\<lambda>a. case find (\<lambda>r. r_id r = id_key a) results of
                 None \<Rightarrow> a\<lparr>loading := False\<rparr>
               | Some res \<Rightarrow>
                   if ticker a = [] then a\<lparr>loading := False\<rparr>
                   else a\<lparr>currentPrice := r_price res, loading := False, error := r_error res\<rparr>)
         prev"

text \<open>
  A whole round with no other update between its start and its end. When the round
  rejects, the last \<open>setAssets\<close> is never reached.
\<close>

definition fetchAllPrices :: "fetch \<Rightarrow> asset list \<Rightarrow> exn + asset list" where
  "fetchAllPrices fetch assets =
     (case fetch_results fetch assets of
        Inl e \<Rightarrow> Inl e
      | Inr results \<Rightarrow> Inr (commit_results results (mark_loading assets)))"

subsection \<open>Derived rows and totals\<close>








subsection \<open>The application as a transition system\<close>

text \<open>
  The state is the row list and the rounds of \<open>fetchAllPrices\<close> that have started and
  not yet written their results. Between the start of a round and its end any other
  handler can run. \<open>FetchStart\<close> is the handler up to its \<open>await\<close>: it marks the rows and
  computes the results from the list as it was; \<open>FetchSettle k\<close> is the rest of round
  \<open>k\<close>, which writes the results unless the round was rejected.
\<close>

record state =
  assets :: "asset list"
  inflight :: "(exn + fetch_result list) list"

datatype event =
    AddRow string
  | RemoveRow string
  | UpdateTicker string string
  | UpdateShares string string
  | UpdateTarget string string
  | FetchStart
  | FetchSettle nat

definition init_state :: "string \<Rightarrow> state" where
  "init_state i = \<lparr>assets = [blank_row i], inflight = []\<rparr>"

fun step :: "fetch \<Rightarrow> event \<Rightarrow> state \<Rightarrow> exn + state" where
  "step fetch (AddRow i) s = Inr (s\<lparr>assets := addRow i (assets s)\<rparr>)"
| "step fetch (RemoveRow i) s =
     (case removeRow i (assets s) of
        Inl e \<Rightarrow> Inl e
      | Inr next_rows \<Rightarrow> Inr (s\<lparr>assets := next_rows\<rparr>))"
| "step fetch (UpdateTicker i t) s = Inr (s\<lparr>assets := updateTicker i t (assets s)\<rparr>)"
| "step fetch (UpdateShares i v) s = Inr (s\<lparr>assets := updateShares i v (assets s)\<rparr>)"
| "step fetch (UpdateTarget i v) s = Inr (s\<lparr>assets := updateTarget i v (assets s)\<rparr>)"
| "step fetch FetchStart s =
     Inr (s\<lparr>assets := mark_loading (assets s),
            inflight := inflight s @ [fetch_results fetch (assets s)]\<rparr>)"
| "step fetch (FetchSettle k) s =
     (if k < length (inflight s) then
        (case inflight s ! k of
           Inl e \<Rightarrow> Inr (s\<lparr>inflight := take k (inflight s) @ drop (Suc k) (inflight s)\<rparr>)
         | Inr results \<Rightarrow>
             Inr (s\<lparr>assets := commit_results results (assets s),
                    inflight := take k (inflight s) @ drop (Suc k) (inflight s)\<rparr>))
      else Inr s)"

fun run :: "fetch \<Rightarrow> event list \<Rightarrow> state \<Rightarrow> exn + state" where
  "run fetch [] s = Inr s"
| "run fetch (ev # evs) s = (case step fetch ev s of Inl e \<Rightarrow> Inl e | Inr s' \<Rightarrow> run fetch evs s')"

text \<open>
  \<open>genId()\<close> is documented to return a unique identifier: an \<open>AddRow\<close> event carries an
  id that no row has.
\<close>

fun fresh_event :: "event \<Rightarrow> state \<Rightarrow> bool" where
  "fresh_event (AddRow i) s = (i \<notin> set (map id_key (assets s)))"
| "fresh_event _ s = True"

inductive reachable :: "fetch \<Rightarrow> state \<Rightarrow> bool" for fetch :: fetch where
  reachable_init: "reachable fetch (init_state i)"
| reachable_step:
    "reachable fetch s \<Longrightarrow> fresh_event ev s \<Longrightarrow> step fetch ev s = Inr s' \<Longrightarrow> reachable fetch s'"

subsection \<open>Notions used in the statements\<close>

text \<open>
  A source fails when its \<open>fetch\<close> is rejected, when the status is not ok, when the body
  is rejected, or when the body holds no price that is a number other than \<open>NaN\<close>.
\<close>

definition source_fails ::
  "response option \<Rightarrow> (response \<Rightarrow> 'b option) \<Rightarrow> ('b \<Rightarrow> jsnum option) \<Rightarrow> bool" where
  "source_fails outcome body price =
     (case outcome of
        None \<Rightarrow> True
      | Some res \<Rightarrow> \<not> ok res \<or> (case body res of None \<Rightarrow> True | Some d \<Rightarrow> price d = None))"

definition quote_fails :: "fetch \<Rightarrow> string \<Rightarrow> bool" where
  "quote_fails fetch t = source_fails (fetch (proxied (quoteEndpoint t))) json quote_price"

definition chart_fails :: "fetch \<Rightarrow> string \<Rightarrow> bool" where
  "chart_fails fetch t = source_fails (fetch (proxied (chartEndpoint t))) json chart_price"

definition stooq_fails :: "fetch \<Rightarrow> string \<Rightarrow> bool" where
  "stooq_fails fetch t =
     source_fails (fetch (proxied (stooqUrl (stooqSymbol t)))) text_body csv_close"

text \<open>
  The row after a round in the words of the specification: a row with no ticker only
  loses its loading flag; a \<open>null\<close> from the resolver sets the error
  \<open>Price unavailable\<close>; a number sets \<open>currentPrice\<close> and clears the error.
\<close>

definition settled_row_spec :: "fetch \<Rightarrow> asset \<Rightarrow> asset" where
  "settled_row_spec fetch a =
     (if ticker a = [] then a\<lparr>loading := False\<rparr>
      else
        case fst (fetchCurrentPrice fetch (ticker a)) of
          Inl e \<Rightarrow> a
        | Inr None \<Rightarrow> a\<lparr>currentPrice := None, loading := False, error := Some ''Price unavailable''\<rparr>
        | Inr (Some p) \<Rightarrow> a\<lparr>currentPrice := Some p, loading := False, error := None\<rparr>)"








subsection \<open>Example data\<close>

text \<open>Two rows with prices, as in the aggregate example of the specification.\<close>

definition example_rows :: "asset list" where
  "example_rows =
     [\<lparr>id_key = ''r1'', ticker = ''AAPL'', shares = Fin 10, currentPrice = Some (Fin 100),
       targetPrice = Fin 120, loading = False, error = None\<rparr>,
      \<lparr>id_key = ''r2'', ticker = ''MSFT'', shares = Fin 5, currentPrice = Some (Fin 50),
       targetPrice = Fin 40, loading = False, error = None\<rparr>]"

text \<open>
  Bodies in the shape of the three services, and networks on which exactly one of the
  three URLs for \<open>AAPL\<close> answers.
\<close>

definition quote_body :: "jsnum \<Rightarrow> jsval" where
  "quote_body p =
     JObject [(''quoteResponse'',
       JObject [(''result'', JArray [JObject [(''symbol'', JString ''AAPL''),
                   (''regularMarketPrice'', JNumber p)]]),
                (''error'', JNull)])]"

definition chart_body :: "jsnum \<Rightarrow> jsval" where
  "chart_body p =
     JObject [(''chart'',
       JObject [(''result'', JArray [JObject [(''meta'',
                   JObject [(''currency'', JString ''USD''), (''regularMarketPrice'', JNumber p)])]]),
                (''error'', JNull)])]"

definition csv_body :: "string \<Rightarrow> string" where
  "csv_body close =
     ''Symbol,Date,Time,Open,High,Low,Close,Volume,Name'' @ [CHR 0x0D, CHR 0x0A] @
     ''AAPL.US,2024-01-02,22:00:09,187.15,188.44,183.885,'' @ close @ '',82488674,APPLE'' @
     [CHR 0x0D, CHR 0x0A]"

definition json_response :: "jsval \<Rightarrow> response" where
  "json_response v = \<lparr>ok = True, json = Some v, text_body = None\<rparr>"

definition text_response :: "string \<Rightarrow> response" where
  "text_response s = \<lparr>ok = True, json = None, text_body = Some s\<rparr>"

definition quote_only :: "jsnum \<Rightarrow> fetch" where
  "quote_only p url =
     (if url = proxied (quoteEndpoint ''AAPL'') then Some (json_response (quote_body p)) else None)"

definition chart_only :: "jsnum \<Rightarrow> fetch" where
  "chart_only p url =
     (if url = proxied (chartEndpoint ''AAPL'') then Some (json_response (chart_body p)) else None)"

definition stooq_only :: "string \<Rightarrow> fetch" where
  "stooq_only close url =
     (if url = proxied (stooqUrl ''aapl.us'') then Some (text_response (csv_body close)) else None)"

definition no_network :: fetch where
  "no_network url = None"

section \<open>Properties\<close>

subsection \<open>The Stooq symbol\<close>

lemma is_alpha_lower_char:
  "(is_lower (lower_char c) \<or> is_upper (lower_char c)) = (is_lower c \<or> is_upper c)"
  by (auto simp: lower_char_def is_lower_def is_upper_def)

lemma alpha_toLowerCase:
  "list_all (\<lambda>c. is_lower c \<or> is_upper c) (toLowerCase s) =
   list_all (\<lambda>c. is_lower c \<or> is_upper c) s"
  by (induction s) (simp_all add: toLowerCase_def is_alpha_lower_char)

lemma regex_test_alpha:
  "(toLowerCase t \<noteq> [] \<and> list_all (\<lambda>c. is_lower c \<or> is_upper c) (toLowerCase t)) =
   purely_alphabetic t"
  using alpha_toLowerCase [of t] by (simp add: purely_alphabetic_def list_all_iff toLowerCase_def)

lemma stooqSymbol_refines_spec: "stooqSymbol t = stooq_symbol_spec t"
  by (simp add: stooqSymbol_def stooq_symbol_spec_def purely_alphabetic_def list_all_iff Let_def
        numeral_eq_Suc)

lemma third_request:
  "length (snd (fetchCurrentPrice fetch t)) = 3 \<longrightarrow>
   snd (fetchCurrentPrice fetch t) ! 2 = proxied (stooqUrl (stooqSymbol t))"
  by (simp add: fetchCurrentPrice_def split: option.splits)

text \<open>
  C3. The symbol sent to the CSV source is the ticker in lower case, with \<open>.us\<close> appended
  when the ticker is purely alphabetic, with a final \<open>-usd\<close> replaced by \<open>.v\<close> otherwise,
  and unchanged in every other case; it is the symbol in the URL of the third request.
  \<open>AAPL\<close> gives \<open>aapl.us\<close>, \<open>BTC-USD\<close> gives \<open>btc.v\<close>, \<open>XYZ123\<close> gives \<open>xyz123\<close>.
\<close>

theorem stooqSymbol_rule:
  "(purely_alphabetic t \<longrightarrow> stooqSymbol t = toLowerCase t @ ''.us'') \<and>
   (\<not> purely_alphabetic t \<and> toLowerCase t = p @ ''-usd'' \<longrightarrow> stooqSymbol t = p @ ''.v'') \<and>
   (\<not> purely_alphabetic t \<and> \<not> suffix ''-usd'' (toLowerCase t) \<longrightarrow>
      stooqSymbol t = toLowerCase t) \<and>
   (length (snd (fetchCurrentPrice fetch t)) = 3 \<longrightarrow>
      snd (fetchCurrentPrice fetch t) ! 2 = proxied (stooqUrl (stooqSymbol t))) \<and>
   stooqSymbol ''AAPL'' = ''aapl.us'' \<and>
   stooqSymbol ''BTC-USD'' = ''btc.v'' \<and>
   stooqSymbol ''XYZ123'' = ''xyz123''"
proof -
  have a: "purely_alphabetic t \<longrightarrow> stooqSymbol t = toLowerCase t @ ''.us''"
    using regex_test_alpha [of t] by (simp add: stooqSymbol_def Let_def)
  have b: "\<not> purely_alphabetic t \<and> toLowerCase t = p @ ''-usd'' \<longrightarrow> stooqSymbol t = p @ ''.v''"
    using regex_test_alpha [of t] by (auto simp add: stooqSymbol_def Let_def suffix_def)
  have c: "\<not> purely_alphabetic t \<and> \<not> suffix ''-usd'' (toLowerCase t) \<longrightarrow>
             stooqSymbol t = toLowerCase t"
    using regex_test_alpha [of t] by (simp add: stooqSymbol_def Let_def)
  have e1: "stooqSymbol ''AAPL'' = ''aapl.us''" by code_simp
  have e2: "stooqSymbol ''BTC-USD'' = ''btc.v''" by code_simp
  have e3: "stooqSymbol ''XYZ123'' = ''xyz123''" by code_simp
  from a b c third_request [of fetch t] e1 e2 e3 show ?thesis by blast
qed

theorem stooqSymbol_rule_witness:
  "purely_alphabetic ''MSFT'' \<and> stooqSymbol ''MSFT'' = toLowerCase ''MSFT'' @ ''.us'' \<and>
   \<not> purely_alphabetic ''ETH-USD'' \<and> toLowerCase ''ETH-USD'' = ''eth'' @ ''-usd'' \<and>
   stooqSymbol ''ETH-USD'' = ''eth'' @ ''.v'' \<and>
   \<not> purely_alphabetic ''BRK.B'' \<and> \<not> suffix ''-usd'' (toLowerCase ''BRK.B'') \<and>
   stooqSymbol ''BRK.B'' = toLowerCase ''BRK.B'' \<and>
   length (snd (fetchCurrentPrice (\<lambda>url. None) ''MSFT'')) = 3 \<and>
   snd (fetchCurrentPrice (\<lambda>url. None) ''MSFT'') ! 2 = proxied (stooqUrl (stooqSymbol ''MSFT''))"
proof -
  have h1: "purely_alphabetic ''MSFT''" by code_simp
  have h2: "\<not> purely_alphabetic ''ETH-USD'' \<and> toLowerCase ''ETH-USD'' = ''eth'' @ ''-usd''"
    by code_simp
  have h3: "\<not> purely_alphabetic ''BRK.B'' \<and> \<not> suffix ''-usd'' (toLowerCase ''BRK.B'')"
    by code_simp
  have h4: "length (snd (fetchCurrentPrice (\<lambda>url. None) ''MSFT'')) = 3"
    by (simp add: fetchCurrentPrice_def quote_try_def chart_try_def stooq_try_def catch_ignore_def)
  from h1 h2 h3 h4
    stooqSymbol_rule [of "''MSFT''" "[]" "\<lambda>url. None"]
    stooqSymbol_rule [of "''ETH-USD''" "''eth''" "\<lambda>url. None"]
    stooqSymbol_rule [of "''BRK.B''" "[]" "\<lambda>url. None"]
  show ?thesis by blast
qed

subsection \<open>The fallback chain\<close>

text \<open>The three URLs, with the constant parts encoded.\<close>

lemma enc_append:
  "encodeURIComponent (a @ b) = encodeURIComponent a @ encodeURIComponent b"
  by (simp add: encodeURIComponent_def)

lemma proxied_quote:
  "proxied (quoteEndpoint t) =
   ''https://api.allorigins.win/raw?url=https%3A%2F%2Fquery1.finance.yahoo.com%2Fv7%2Ffinance%2Fquote%3Fsymbols%3D''
     @ encodeURIComponent (encodeURIComponent t)"
proof -
  have "encodeURIComponent ''https://query1.finance.yahoo.com/v7/finance/quote?symbols='' =
        ''https%3A%2F%2Fquery1.finance.yahoo.com%2Fv7%2Ffinance%2Fquote%3Fsymbols%3D''"
    by code_simp
  moreover have "proxied (quoteEndpoint t) =
      proxyBase @ encodeURIComponent ''https://query1.finance.yahoo.com/v7/finance/quote?symbols=''
        @ encodeURIComponent (encodeURIComponent t)"
    by (simp only: proxied_def quoteEndpoint_def enc_append)
  ultimately show ?thesis
    by (simp add: proxyBase_def)
qed

lemma proxied_chart:
  "proxied (chartEndpoint t) =
   ''https://api.allorigins.win/raw?url=https%3A%2F%2Fquery1.finance.yahoo.com%2Fv8%2Ffinance%2Fchart%2F''
     @ encodeURIComponent (encodeURIComponent t) @ ''%3Frange%3D1d%26interval%3D1d''"
proof -
  have "encodeURIComponent ''https://query1.finance.yahoo.com/v8/finance/chart/'' =
        ''https%3A%2F%2Fquery1.finance.yahoo.com%2Fv8%2Ffinance%2Fchart%2F''"
    and "encodeURIComponent ''?range=1d&interval=1d'' = ''%3Frange%3D1d%26interval%3D1d''"
    by code_simp+
  moreover have "proxied (chartEndpoint t) =
      proxyBase @ encodeURIComponent ''https://query1.finance.yahoo.com/v8/finance/chart/''
        @ encodeURIComponent (encodeURIComponent t) @ encodeURIComponent ''?range=1d&interval=1d''"
    by (simp only: proxied_def chartEndpoint_def enc_append)
  ultimately show ?thesis
    by (simp add: proxyBase_def)
qed

lemma proxied_stooq:
  "proxied (stooqUrl s) =
   ''https://api.allorigins.win/raw?url=https%3A%2F%2Fstooq.pl%2Fq%2Fl%2F%3Fs%3D''
     @ encodeURIComponent (encodeURIComponent s) @ ''%26f%3Dsd2t2ohlcvn%26h%26e%3Dcsv''"
proof -
  have "encodeURIComponent ''https://stooq.pl/q/l/?s='' = ''https%3A%2F%2Fstooq.pl%2Fq%2Fl%2F%3Fs%3D''"
    and "encodeURIComponent ''&f=sd2t2ohlcvn&h&e=csv'' = ''%26f%3Dsd2t2ohlcvn%26h%26e%3Dcsv''"
    by code_simp+
  moreover have "proxied (stooqUrl s) =
      proxyBase @ encodeURIComponent ''https://stooq.pl/q/l/?s=''
        @ encodeURIComponent (encodeURIComponent s) @ encodeURIComponent ''&f=sd2t2ohlcvn&h&e=csv''"
    by (simp only: proxied_def stooqUrl_def enc_append)
  ultimately show ?thesis
    by (simp add: proxyBase_def)
qed

lemma urls_differ:
  "proxied (chartEndpoint t') \<noteq> proxied (quoteEndpoint t)"
  "proxied (stooqUrl s) \<noteq> proxied (quoteEndpoint t)"
  "proxied (stooqUrl s) \<noteq> proxied (chartEndpoint t)"
  by (simp_all add: proxied_quote proxied_chart proxied_stooq)

text \<open>The price read from a body that has the field.\<close>

lemma quote_price_field:
  assumes "opt_first (opt_prop (opt_prop d ''quoteResponse'') ''result'') = r"
    and "get_prop r ''regularMarketPrice'' = JNumber p \<or>
         (nullish (get_prop r ''regularMarketPrice'') \<and>
          get_prop r ''regularMarketPreviousClose'' = JNumber p)"
    and "\<not> isNaN p"
  shows "quote_price d = Some p"
proof -
  have "\<not> nullish r"
    using assms(2) by (cases r) (auto simp: nullish_def)
  with assms show ?thesis
    by (auto simp: quote_price_def coalesce_def Let_def nullish_def)
qed

lemma chart_price_field:
  assumes "opt_prop (opt_first (opt_prop (opt_prop d ''chart'') ''result'')) ''meta'' = m"
    and "get_prop m ''regularMarketPrice'' = JNumber p \<or>
         (nullish (get_prop m ''regularMarketPrice'') \<and>
          get_prop m ''chartPreviousClose'' = JNumber p)"
    and "\<not> isNaN p"
  shows "chart_price d = Some p"
proof -
  have "\<not> nullish m"
    using assms(2) by (cases m) (auto simp: nullish_def)
  with assms show ?thesis
    by (auto simp: chart_price_def coalesce_def Let_def nullish_def)
qed

text \<open>The chain stops at the first block that returns.\<close>

lemma quote_first:
  "t \<noteq> [] \<Longrightarrow> catch_ignore (quote_try fetch t) = Some p \<Longrightarrow>
   fetchCurrentPrice fetch t = (Inr (Some p), [proxied (quoteEndpoint t)])"
  by (simp add: fetchCurrentPrice_def)

lemma chart_second:
  "t \<noteq> [] \<Longrightarrow> catch_ignore (quote_try fetch t) = None \<Longrightarrow>
   catch_ignore (chart_try fetch t) = Some p \<Longrightarrow>
   fetchCurrentPrice fetch t =
     (Inr (Some p), [proxied (quoteEndpoint t), proxied (chartEndpoint t)])"
  by (simp add: fetchCurrentPrice_def)

lemma stooq_third:
  "t \<noteq> [] \<Longrightarrow> catch_ignore (quote_try fetch t) = None \<Longrightarrow>
   catch_ignore (chart_try fetch t) = None \<Longrightarrow>
   fetchCurrentPrice fetch t =
     (Inr (catch_ignore (stooq_try fetch (stooqSymbol t))),
      [proxied (quoteEndpoint t), proxied (chartEndpoint t),
       proxied (stooqUrl (stooqSymbol t))])"
  by (simp add: fetchCurrentPrice_def)

lemma quote_try_ok:
  "fetch (proxied (quoteEndpoint t)) = Some res \<Longrightarrow> ok res \<Longrightarrow> json res = Some d \<Longrightarrow>
   catch_ignore (quote_try fetch t) = quote_price d"
  by (simp add: quote_try_def catch_ignore_def)

lemma chart_try_ok:
  "fetch (proxied (chartEndpoint t)) = Some res \<Longrightarrow> ok res \<Longrightarrow> json res = Some d \<Longrightarrow>
   catch_ignore (chart_try fetch t) = chart_price d"
  by (simp add: chart_try_def catch_ignore_def)

lemma stooq_try_ok:
  "fetch (proxied (stooqUrl s)) = Some res \<Longrightarrow> ok res \<Longrightarrow> text_body res = Some csv \<Longrightarrow>
   catch_ignore (stooq_try fetch s) = csv_close csv"
  by (simp add: stooq_try_def catch_ignore_def)

lemma quote_fails_iff: "quote_fails fetch t = (catch_ignore (quote_try fetch t) = None)"
  by (simp add: quote_fails_def source_fails_def quote_try_def catch_ignore_def
      split: option.splits)

lemma chart_fails_iff: "chart_fails fetch t = (catch_ignore (chart_try fetch t) = None)"
  by (simp add: chart_fails_def source_fails_def chart_try_def catch_ignore_def
      split: option.splits)

lemma stooq_fails_iff:
  "stooq_fails fetch t = (catch_ignore (stooq_try fetch (stooqSymbol t)) = None)"
  by (simp add: stooq_fails_def source_fails_def stooq_try_def catch_ignore_def
      split: option.splits)

lemma fetchCurrentPrice_no_exn: "\<exists>r. fst (fetchCurrentPrice fetch t) = Inr r"
  by (simp add: fetchCurrentPrice_def split: option.splits)

text \<open>
  C1. For a ticker that is not empty, when the quote URL answers with an ok status and a
  body whose \<open>quoteResponse.result[0]\<close> has a \<open>regularMarketPrice\<close> that is a number other
  than \<open>NaN\<close> (or has none and has such a \<open>regularMarketPreviousClose\<close>), the resolver
  returns that number and has fetched the quote URL only: no chart URL, no Stooq URL.
  An empty ticker returns \<open>null\<close> before any request, so the primary source never
  answers for it.
\<close>

theorem primary_price_returned:
  assumes "t \<noteq> []"
    and "fetch (proxied (quoteEndpoint t)) = Some res" and "ok res" and "json res = Some d"
    and "opt_first (opt_prop (opt_prop d ''quoteResponse'') ''result'') = r"
    and "get_prop r ''regularMarketPrice'' = JNumber p \<or>
         (nullish (get_prop r ''regularMarketPrice'') \<and>
          get_prop r ''regularMarketPreviousClose'' = JNumber p)"
    and "\<not> isNaN p"
  shows "fetchCurrentPrice fetch t = (Inr (Some p), [proxied (quoteEndpoint t)]) \<and>
         (\<forall>t'. proxied (chartEndpoint t') \<notin> set (snd (fetchCurrentPrice fetch t))) \<and>
         (\<forall>s. proxied (stooqUrl s) \<notin> set (snd (fetchCurrentPrice fetch t)))"
proof -
  have "quote_price d = Some p"
    using assms(5,6,7) by (rule quote_price_field)
  then have "catch_ignore (quote_try fetch t) = Some p"
    using assms(2,3,4) by (simp add: quote_try_ok)
  then have "fetchCurrentPrice fetch t = (Inr (Some p), [proxied (quoteEndpoint t)])"
    using assms(1) by (simp add: quote_first)
  then show ?thesis by (simp add: urls_differ)
qed

theorem primary_price_returned_witness:
  "fetchCurrentPrice (quote_only (Fin 150)) ''AAPL'' =
     (Inr (Some (Fin 150)), [proxied (quoteEndpoint ''AAPL'')]) \<and>
   proxied (chartEndpoint ''AAPL'') \<notin> set (snd (fetchCurrentPrice (quote_only (Fin 150)) ''AAPL'')) \<and>
   proxied (stooqUrl ''aapl.us'') \<notin> set (snd (fetchCurrentPrice (quote_only (Fin 150)) ''AAPL''))"
proof -
  have h1: "''AAPL'' \<noteq> []" by simp
  have h2: "quote_only (Fin 150) (proxied (quoteEndpoint ''AAPL'')) =
              Some (json_response (quote_body (Fin 150)))"
    by (simp add: quote_only_def)
  have h3: "ok (json_response (quote_body (Fin 150)))"
    by (simp add: json_response_def)
  have h4: "json (json_response (quote_body (Fin 150))) = Some (quote_body (Fin 150))"
    by (simp add: json_response_def)
  have h5: "opt_first (opt_prop (opt_prop (quote_body (Fin 150)) ''quoteResponse'') ''result'') =
              JObject [(''symbol'', JString ''AAPL''), (''regularMarketPrice'', JNumber (Fin 150))]"
    by (simp add: quote_body_def opt_prop_def nullish_def)
  have h6: "get_prop (JObject [(''symbol'', JString ''AAPL''), (''regularMarketPrice'', JNumber (Fin 150))])
              ''regularMarketPrice'' = JNumber (Fin 150) \<or>
            (nullish (get_prop (JObject [(''symbol'', JString ''AAPL''), (''regularMarketPrice'', JNumber (Fin 150))])
              ''regularMarketPrice'') \<and>
             get_prop (JObject [(''symbol'', JString ''AAPL''), (''regularMarketPrice'', JNumber (Fin 150))])
              ''regularMarketPreviousClose'' = JNumber (Fin 150))"
    by simp
  have h7: "\<not> isNaN (Fin 150)" by simp
  from h1 h2 h3 h4 h5 h6 h7
    primary_price_returned [of "''AAPL''" "quote_only (Fin 150)"
      "json_response (quote_body (Fin 150))" "quote_body (Fin 150)"
      "JObject [(''symbol'', JString ''AAPL''), (''regularMarketPrice'', JNumber (Fin 150))]"
      "Fin 150"]
  show ?thesis by blast
qed

text \<open>
  C4. A price of \<open>0\<close> is returned as it is: from the quote body, from the chart body
  when the quote source has failed, and from a CSV close field that parses to \<open>0\<close> when
  both have failed.
\<close>

theorem zero_price_accepted:
  "(t \<noteq> [] \<and> fetch (proxied (quoteEndpoint t)) = Some res \<and> ok res \<and> json res = Some d \<and>
    opt_first (opt_prop (opt_prop d ''quoteResponse'') ''result'') = r \<and>
    (get_prop r ''regularMarketPrice'' = JNumber (Fin 0) \<or>
     (nullish (get_prop r ''regularMarketPrice'') \<and>
      get_prop r ''regularMarketPreviousClose'' = JNumber (Fin 0))) \<longrightarrow>
    fst (fetchCurrentPrice fetch t) = Inr (Some (Fin 0))) \<and>
   (t \<noteq> [] \<and> quote_fails fetch t \<and>
    fetch (proxied (chartEndpoint t)) = Some res \<and> ok res \<and> json res = Some d \<and>
    opt_prop (opt_first (opt_prop (opt_prop d ''chart'') ''result'')) ''meta'' = r \<and>
    (get_prop r ''regularMarketPrice'' = JNumber (Fin 0) \<or>
     (nullish (get_prop r ''regularMarketPrice'') \<and>
      get_prop r ''chartPreviousClose'' = JNumber (Fin 0))) \<longrightarrow>
    fst (fetchCurrentPrice fetch t) = Inr (Some (Fin 0))) \<and>
   (t \<noteq> [] \<and> quote_fails fetch t \<and> chart_fails fetch t \<and>
    fetch (proxied (stooqUrl (stooqSymbol t))) = Some res \<and> ok res \<and> text_body res = Some csv \<and>
    1 < length (split_lines [] (trim csv)) \<and>
    index (split_on (CHR '','') [] (split_lines [] (trim csv) ! 1)) 6 = Some field \<and>
    parseFloat field = Fin 0 \<longrightarrow>
    fst (fetchCurrentPrice fetch t) = Inr (Some (Fin 0)))"
proof -
  have a: "t \<noteq> [] \<and> fetch (proxied (quoteEndpoint t)) = Some res \<and> ok res \<and> json res = Some d \<and>
    opt_first (opt_prop (opt_prop d ''quoteResponse'') ''result'') = r \<and>
    (get_prop r ''regularMarketPrice'' = JNumber (Fin 0) \<or>
     (nullish (get_prop r ''regularMarketPrice'') \<and>
      get_prop r ''regularMarketPreviousClose'' = JNumber (Fin 0))) \<longrightarrow>
    fst (fetchCurrentPrice fetch t) = Inr (Some (Fin 0))"
  proof
    assume h: "t \<noteq> [] \<and> fetch (proxied (quoteEndpoint t)) = Some res \<and> ok res \<and>
      json res = Some d \<and>
      opt_first (opt_prop (opt_prop d ''quoteResponse'') ''result'') = r \<and>
      (get_prop r ''regularMarketPrice'' = JNumber (Fin 0) \<or>
       (nullish (get_prop r ''regularMarketPrice'') \<and>
        get_prop r ''regularMarketPreviousClose'' = JNumber (Fin 0)))"
    then have "quote_price d = Some (Fin 0)"
      by (intro quote_price_field [of d r]) simp_all
    with h have "catch_ignore (quote_try fetch t) = Some (Fin 0)"
      by (simp add: quote_try_ok)
    with h show "fst (fetchCurrentPrice fetch t) = Inr (Some (Fin 0))"
      by (simp add: quote_first)
  qed
  have b: "t \<noteq> [] \<and> quote_fails fetch t \<and>
    fetch (proxied (chartEndpoint t)) = Some res \<and> ok res \<and> json res = Some d \<and>
    opt_prop (opt_first (opt_prop (opt_prop d ''chart'') ''result'')) ''meta'' = r \<and>
    (get_prop r ''regularMarketPrice'' = JNumber (Fin 0) \<or>
     (nullish (get_prop r ''regularMarketPrice'') \<and>
      get_prop r ''chartPreviousClose'' = JNumber (Fin 0))) \<longrightarrow>
    fst (fetchCurrentPrice fetch t) = Inr (Some (Fin 0))"
  proof
    assume h: "t \<noteq> [] \<and> quote_fails fetch t \<and>
      fetch (proxied (chartEndpoint t)) = Some res \<and> ok res \<and> json res = Some d \<and>
      opt_prop (opt_first (opt_prop (opt_prop d ''chart'') ''result'')) ''meta'' = r \<and>
      (get_prop r ''regularMarketPrice'' = JNumber (Fin 0) \<or>
       (nullish (get_prop r ''regularMarketPrice'') \<and>
        get_prop r ''chartPreviousClose'' = JNumber (Fin 0)))"
    then have "chart_price d = Some (Fin 0)"
      by (intro chart_price_field [of d r]) simp_all
    with h have "catch_ignore (chart_try fetch t) = Some (Fin 0)"
      by (simp add: chart_try_ok)
    with h show "fst (fetchCurrentPrice fetch t) = Inr (Some (Fin 0))"
      by (simp add: chart_second quote_fails_iff)
  qed
  have c: "t \<noteq> [] \<and> quote_fails fetch t \<and> chart_fails fetch t \<and>
    fetch (proxied (stooqUrl (stooqSymbol t))) = Some res \<and> ok res \<and> text_body res = Some csv \<and>
    1 < length (split_lines [] (trim csv)) \<and>
    index (split_on (CHR '','') [] (split_lines [] (trim csv) ! 1)) 6 = Some field \<and>
    parseFloat field = Fin 0 \<longrightarrow>
    fst (fetchCurrentPrice fetch t) = Inr (Some (Fin 0))"
  proof
    assume h: "t \<noteq> [] \<and> quote_fails fetch t \<and> chart_fails fetch t \<and>
      fetch (proxied (stooqUrl (stooqSymbol t))) = Some res \<and> ok res \<and>
      text_body res = Some csv \<and>
      1 < length (split_lines [] (trim csv)) \<and>
      index (split_on (CHR '','') [] (split_lines [] (trim csv) ! 1)) 6 = Some field \<and>
      parseFloat field = Fin 0"
    then have "csv_close csv = Some (Fin 0)"
      by (simp add: csv_close_def Let_def)
    with h have "catch_ignore (stooq_try fetch (stooqSymbol t)) = Some (Fin 0)"
      by (simp add: stooq_try_ok)
    with h show "fst (fetchCurrentPrice fetch t) = Inr (Some (Fin 0))"
      by (simp add: stooq_third quote_fails_iff chart_fails_iff)
  qed
  from a b c show ?thesis by blast
qed

theorem zero_price_accepted_witness:
  "fst (fetchCurrentPrice (quote_only (Fin 0)) ''AAPL'') = Inr (Some (Fin 0)) \<and>
   quote_fails (chart_only (Fin 0)) ''AAPL'' \<and>
   fst (fetchCurrentPrice (chart_only (Fin 0)) ''AAPL'') = Inr (Some (Fin 0)) \<and>
   quote_fails (stooq_only ''0.00'') ''AAPL'' \<and> chart_fails (stooq_only ''0.00'') ''AAPL'' \<and>
   parseFloat ''0.00'' = Fin 0 \<and>
   fst (fetchCurrentPrice (stooq_only ''0.00'') ''AAPL'') = Inr (Some (Fin 0))"
proof -
  have q: "''AAPL'' \<noteq> [] \<and>
    quote_only (Fin 0) (proxied (quoteEndpoint ''AAPL'')) = Some (json_response (quote_body (Fin 0))) \<and>
    ok (json_response (quote_body (Fin 0))) \<and>
    json (json_response (quote_body (Fin 0))) = Some (quote_body (Fin 0)) \<and>
    opt_first (opt_prop (opt_prop (quote_body (Fin 0)) ''quoteResponse'') ''result'') =
      JObject [(''symbol'', JString ''AAPL''), (''regularMarketPrice'', JNumber (Fin 0))] \<and>
    get_prop (JObject [(''symbol'', JString ''AAPL''), (''regularMarketPrice'', JNumber (Fin 0))])
      ''regularMarketPrice'' = JNumber (Fin 0)"
    by (simp add: quote_only_def json_response_def quote_body_def opt_prop_def nullish_def)
  have c: "quote_fails (chart_only (Fin 0)) ''AAPL'' \<and>
    chart_only (Fin 0) (proxied (chartEndpoint ''AAPL'')) = Some (json_response (chart_body (Fin 0))) \<and>
    ok (json_response (chart_body (Fin 0))) \<and>
    json (json_response (chart_body (Fin 0))) = Some (chart_body (Fin 0)) \<and>
    opt_prop (opt_first (opt_prop (opt_prop (chart_body (Fin 0)) ''chart'') ''result'')) ''meta'' =
      JObject [(''currency'', JString ''USD''), (''regularMarketPrice'', JNumber (Fin 0))] \<and>
    get_prop (JObject [(''currency'', JString ''USD''), (''regularMarketPrice'', JNumber (Fin 0))])
      ''regularMarketPrice'' = JNumber (Fin 0)"
    by (simp add: chart_only_def json_response_def chart_body_def opt_prop_def nullish_def
        quote_fails_def source_fails_def urls_differ [symmetric])
  have s1: "quote_fails (stooq_only ''0.00'') ''AAPL'' \<and> chart_fails (stooq_only ''0.00'') ''AAPL''"
    by (simp add: stooq_only_def quote_fails_def chart_fails_def source_fails_def
        urls_differ [symmetric])
  have s2: "stooqSymbol ''AAPL'' = ''aapl.us''" by code_simp
  have s3: "stooq_only ''0.00'' (proxied (stooqUrl (stooqSymbol ''AAPL''))) =
              Some (text_response (csv_body ''0.00'')) \<and>
            ok (text_response (csv_body ''0.00'')) \<and>
            text_body (text_response (csv_body ''0.00'')) = Some (csv_body ''0.00'')"
    by (simp add: s2 stooq_only_def text_response_def)
  have s4: "1 < length (split_lines [] (trim (csv_body ''0.00''))) \<and>
            index (split_on (CHR '','') [] (split_lines [] (trim (csv_body ''0.00'')) ! 1)) 6 =
              Some ''0.00'' \<and>
            parseFloat ''0.00'' = Fin 0"
    by code_simp
  from q c s1 s3 s4
    zero_price_accepted [of "''AAPL''" "quote_only (Fin 0)" "json_response (quote_body (Fin 0))"
      "quote_body (Fin 0)"
      "JObject [(''symbol'', JString ''AAPL''), (''regularMarketPrice'', JNumber (Fin 0))]"]
    zero_price_accepted [of "''AAPL''" "chart_only (Fin 0)" "json_response (chart_body (Fin 0))"
      "chart_body (Fin 0)"
      "JObject [(''currency'', JString ''USD''), (''regularMarketPrice'', JNumber (Fin 0))]"]
    zero_price_accepted [of "''AAPL''" "stooq_only ''0.00''" "text_response (csv_body ''0.00'')"
      _ _ "csv_body ''0.00''" "''0.00''"]
  show ?thesis by blast
qed

subsection \<open>A round without interleaving\<close>

lemma promise_all_map:
  "\<forall>x \<in> set xs. \<exists>r. f x = Inr r \<Longrightarrow> promise_all (map f xs) = Inr (map (\<lambda>x. projr (f x)) xs)"
  by (induction xs) auto

lemma row_result_Inr:
  "row_result fetch a =
     Inr (Result (id_key a)
            (if ticker a = [] then None else projr (fst (fetchCurrentPrice fetch (ticker a))))
            (if ticker a \<noteq> [] \<and> projr (fst (fetchCurrentPrice fetch (ticker a))) = None
             then Some ''Price unavailable'' else None))"
  using fetchCurrentPrice_no_exn [of fetch "ticker a"]
  by (auto simp: row_result_def)

lemma find_by_id:
  "distinct (map id_key as) \<Longrightarrow> a \<in> set as \<Longrightarrow> \<forall>b. r_id (g b) = id_key b \<Longrightarrow>
   find (\<lambda>r. r_id r = id_key a) (map g as) = Some (g a)"
  by (induction as) auto

lemma fetch_results_eq:
  "fetch_results fetch as = Inr (map (\<lambda>a. projr (row_result fetch a)) as)"
  unfolding fetch_results_def
  by (rule promise_all_map) (simp add: row_result_Inr)


lemma fetchAllPrices_rows:
  assumes "distinct (map id_key as)"
  shows "fetchAllPrices fetch as = Inr (map (settled_row_spec fetch) as)"
proof -
  let ?g = "\<lambda>a. projr (row_result fetch a)"
  have ids: "\<forall>b. r_id (?g b) = id_key b"
    by (simp add: row_result_Inr)
  have "commit_results (map ?g as) (mark_loading as) = map (settled_row_spec fetch) as"
    unfolding commit_results_def mark_loading_def map_map
  proof (rule map_cong [OF refl])
    fix a assume a: "a \<in> set as"
    have f: "find (\<lambda>r. r_id r = id_key a) (map ?g as) = Some (?g a)"
      using assms a ids by (rule find_by_id)
    obtain r where r: "fst (fetchCurrentPrice fetch (ticker a)) = Inr r"
      using fetchCurrentPrice_no_exn by blast
    show "((\<lambda>a. case find (\<lambda>r. r_id r = id_key a) (map ?g as) of
                 None \<Rightarrow> a\<lparr>loading := False\<rparr>
               | Some res \<Rightarrow>
                   if ticker a = [] then a\<lparr>loading := False\<rparr>
                   else a\<lparr>currentPrice := r_price res, loading := False, error := r_error res\<rparr>) \<circ>
          (\<lambda>a. if ticker a \<noteq> [] then a\<lparr>loading := True, error := None, currentPrice := None\<rparr>
               else a)) a = settled_row_spec fetch a"
      using f r by (cases r) (simp_all add: settled_row_spec_def row_result_Inr)
  qed
  then show ?thesis
    by (simp add: fetchAllPrices_def fetch_results_eq)
qed

text \<open>
  C2. \<open>fetchCurrentPrice\<close> never throws; when all three sources fail it returns \<open>null\<close>;
  and a round of \<open>fetchAllPrices\<close> over rows with distinct ids leaves every row with a
  ticker either with the error \<open>Price unavailable\<close> and no price (the resolver returned
  \<open>null\<close>) or with the price and no error (it returned a number).
\<close>

theorem all_sources_fail:
  "(\<exists>r. fst (fetchCurrentPrice fetch t) = Inr r) \<and>
   (quote_fails fetch t \<and> chart_fails fetch t \<and> stooq_fails fetch t \<longrightarrow>
      fst (fetchCurrentPrice fetch t) = Inr None) \<and>
   (distinct (map id_key as) \<longrightarrow> fetchAllPrices fetch as = Inr (map (settled_row_spec fetch) as))"
proof -
  have a: "\<exists>r. fst (fetchCurrentPrice fetch t) = Inr r"
    by (rule fetchCurrentPrice_no_exn)
  have b: "quote_fails fetch t \<and> chart_fails fetch t \<and> stooq_fails fetch t \<longrightarrow>
             fst (fetchCurrentPrice fetch t) = Inr None"
    by (simp add: quote_fails_iff chart_fails_iff stooq_fails_iff fetchCurrentPrice_def)
  have c: "distinct (map id_key as) \<longrightarrow> fetchAllPrices fetch as = Inr (map (settled_row_spec fetch) as)"
    by (simp add: fetchAllPrices_rows)
  from a b c show ?thesis by blast
qed

theorem all_sources_fail_witness:
  "quote_fails no_network ''AAPL'' \<and> chart_fails no_network ''AAPL'' \<and>
   stooq_fails no_network ''AAPL'' \<and>
   fst (fetchCurrentPrice no_network ''AAPL'') = Inr None \<and>
   distinct (map id_key example_rows) \<and>
   fetchAllPrices (quote_only (Fin 150)) example_rows =
     Inr [\<lparr>id_key = ''r1'', ticker = ''AAPL'', shares = Fin 10, currentPrice = Some (Fin 150),
           targetPrice = Fin 120, loading = False, error = None\<rparr>,
          \<lparr>id_key = ''r2'', ticker = ''MSFT'', shares = Fin 5, currentPrice = None,
           targetPrice = Fin 40, loading = False, error = Some ''Price unavailable''\<rparr>]"
proof -
  have h1: "quote_fails no_network ''AAPL'' \<and> chart_fails no_network ''AAPL'' \<and>
            stooq_fails no_network ''AAPL''"
    by (simp add: quote_fails_def chart_fails_def stooq_fails_def source_fails_def no_network_def)
  have h2: "distinct (map id_key example_rows)"
    by (simp add: example_rows_def)
  have v: "map (settled_row_spec (quote_only (Fin 150))) example_rows =
     [\<lparr>id_key = ''r1'', ticker = ''AAPL'', shares = Fin 10, currentPrice = Some (Fin 150),
       targetPrice = Fin 120, loading = False, error = None\<rparr>,
      \<lparr>id_key = ''r2'', ticker = ''MSFT'', shares = Fin 5, currentPrice = None,
       targetPrice = Fin 40, loading = False, error = Some ''Price unavailable''\<rparr>]"
    by code_simp
  from h1 h2 all_sources_fail [of no_network "''AAPL''" example_rows]
    all_sources_fail [of "quote_only (Fin 150)" "''AAPL''" example_rows]
  show ?thesis unfolding v by blast
qed

subsection \<open>Row updates\<close>

text \<open>
  C6. \<open>updateTicker\<close> keeps the length of the list; a row with the given id gets the new
  ticker, no price, no loading flag and no error, and keeps its id, shares and target
  price; a row with another id is unchanged.
\<close>

theorem updateTicker_row:
  "length (updateTicker i t prev) = length prev \<and>
   (\<forall>k < length prev.
      (id_key (prev ! k) = i \<longrightarrow>
         updateTicker i t prev ! k =
           \<lparr>id_key = id_key (prev ! k), ticker = t, shares = shares (prev ! k),
            currentPrice = None, targetPrice = targetPrice (prev ! k), loading = False,
            error = None\<rparr>) \<and>
      (id_key (prev ! k) \<noteq> i \<longrightarrow> updateTicker i t prev ! k = prev ! k))"
  by (simp add: updateTicker_def)

theorem updateTicker_row_witness:
  "(0::nat) < length example_rows \<and> id_key (example_rows ! 0) = ''r1'' \<and>
   updateTicker ''r1'' ''GOOG'' example_rows ! 0 =
     \<lparr>id_key = ''r1'', ticker = ''GOOG'', shares = Fin 10, currentPrice = None,
      targetPrice = Fin 120, loading = False, error = None\<rparr> \<and>
   (1::nat) < length example_rows \<and> id_key (example_rows ! 1) \<noteq> ''r1'' \<and>
   updateTicker ''r1'' ''GOOG'' example_rows ! 1 = example_rows ! 1"
proof -
  have h: "(0::nat) < length example_rows \<and> id_key (example_rows ! 0) = ''r1'' \<and>
           (1::nat) < length example_rows \<and> id_key (example_rows ! 1) \<noteq> ''r1''"
    by (simp add: example_rows_def)
  have v: "shares (example_rows ! 0) = Fin 10 \<and> targetPrice (example_rows ! 0) = Fin 120"
    by (simp add: example_rows_def)
  from h v updateTicker_row [of "''r1''" "''GOOG''" example_rows]
  show ?thesis by auto
qed

lemma unparseable_is_zero:
  "isNaN (parseFloat v) \<Longrightarrow>
   updateShares i v prev = map (\<lambda>a. if id_key a = i then a\<lparr>shares := Fin 0\<rparr> else a) prev \<and>
   updateTarget i v prev = map (\<lambda>a. if id_key a = i then a\<lparr>targetPrice := Fin 0\<rparr> else a) prev"
  by (simp add: updateShares_def updateTarget_def Let_def)

text \<open>
  C9. An input that does not parse is stored as \<open>0\<close>, but a negative input is stored as
  it is: \<open>updateShares\<close> with \<open>-5\<close> stores \<open>-5\<close> and \<open>updateTarget\<close> with \<open>-2.5\<close> stores
  \<open>-2.5\<close>, although the comments on both functions say that negative values are not
  allowed.
\<close>

theorem updates_store_negative:
  "shares (hd (updateShares ''r1'' ''-5'' example_rows)) = Fin (- 5) \<and>
   targetPrice (hd (updateTarget ''r1'' ''-2.5'' example_rows)) = Fin (- 5 / 2) \<and>
   shares (hd (updateShares ''r1'' ''abc'' example_rows)) = Fin 0"
  by code_simp

text \<open>
  C10. \<open>removeRow\<close> always returns a list. On a list of exactly one row the result is
  the blank row with that row's id, whatever id was passed; on a list of two or more
  rows none of which has the id, the result is the list itself.
\<close>

theorem removeRow_total:
  "(\<exists>rest. removeRow i prev = Inr rest) \<and>
   (length prev = 1 \<longrightarrow> removeRow i prev = Inr [blank_row (id_key (hd prev))]) \<and>
   (2 \<le> length prev \<and> i \<notin> set (map id_key prev) \<longrightarrow> removeRow i prev = Inr prev)"
proof -
  have one: "length prev = 1 \<longrightarrow> removeRow i prev = Inr [blank_row (id_key (hd prev))]"
    by (cases prev) (simp_all add: removeRow_def index_def)
  have many: "2 \<le> length prev \<and> i \<notin> set (map id_key prev) \<longrightarrow> removeRow i prev = Inr prev"
  proof
    assume h: "2 \<le> length prev \<and> i \<notin> set (map id_key prev)"
    then have "filter (\<lambda>a. id_key a \<noteq> i) prev = prev"
      by (intro filter_True) auto
    with h show "removeRow i prev = Inr prev" by (simp add: removeRow_def)
  qed
  have total: "\<exists>rest. removeRow i prev = Inr rest"
    using one by (cases "length prev = 1") (auto simp: removeRow_def)
  from one many total show ?thesis by blast
qed

theorem removeRow_total_witness:
  "length [hd example_rows] = 1 \<and>
   removeRow ''other'' [hd example_rows] = Inr [blank_row ''r1''] \<and>
   2 \<le> length example_rows \<and> ''other'' \<notin> set (map id_key example_rows) \<and>
   removeRow ''other'' example_rows = Inr example_rows"
proof -
  have h1: "length [hd example_rows] = 1 \<and> id_key (hd [hd example_rows]) = ''r1''"
    by (simp add: example_rows_def)
  have h2: "2 \<le> length example_rows \<and> ''other'' \<notin> set (map id_key example_rows)"
    by (simp add: example_rows_def)
  from h1 h2 removeRow_total [of "''other''" "[hd example_rows]"]
    removeRow_total [of "''other''" example_rows]
  show ?thesis by auto
qed

subsection \<open>Invariants of the row list\<close>













lemma run_reachable:
  "reachable fetch s \<Longrightarrow> \<forall>i. AddRow i \<notin> set evs \<Longrightarrow> run fetch evs s = Inr s' \<Longrightarrow>
   reachable fetch s'"
proof (induction evs arbitrary: s)
  case Nil
  then show ?case by simp
next
  case (Cons ev evs)
  from Cons.prems(3) obtain s1 where s1: "step fetch ev s = Inr s1" "run fetch evs s1 = Inr s'"
    by (auto split: sum.splits)
  have "fresh_event ev s"
    using Cons.prems(2) by (cases ev) auto
  with Cons.prems(1) s1(1) have "reachable fetch s1"
    by (blast intro: reachable_step)
  with Cons.IH [of s1] Cons.prems(2) s1(2) show ?case by simp
qed



subsection \<open>A price shown against another ticker\<close>

text \<open>
  C5. A round is started for the ticker \<open>AAPL\<close>, the ticker of the row is changed to
  \<open>MSFT\<close> while the round is in flight, and the round then writes its result: the row
  shows \<open>MSFT\<close> with the price \<open>150\<close> that was fetched for \<open>AAPL\<close>, on a network that has
  no price for \<open>MSFT\<close>. The state is reachable.
\<close>

theorem stale_price_after_ticker_change:
  "run (quote_only (Fin 150))
     [UpdateTicker ''r1'' ''AAPL'', FetchStart, UpdateTicker ''r1'' ''MSFT'', FetchSettle 0]
     (init_state ''r1'') =
     Inr \<lparr>assets = [\<lparr>id_key = ''r1'', ticker = ''MSFT'', shares = Fin 0,
                      currentPrice = Some (Fin 150), targetPrice = Fin 0, loading = False,
                      error = None\<rparr>],
          inflight = []\<rparr> \<and>
   reachable (quote_only (Fin 150))
     \<lparr>assets = [\<lparr>id_key = ''r1'', ticker = ''MSFT'', shares = Fin 0,
                  currentPrice = Some (Fin 150), targetPrice = Fin 0, loading = False,
                  error = None\<rparr>],
      inflight = []\<rparr> \<and>
   fst (fetchCurrentPrice (quote_only (Fin 150)) ''AAPL'') = Inr (Some (Fin 150)) \<and>
   fst (fetchCurrentPrice (quote_only (Fin 150)) ''MSFT'') = Inr None"
proof -
  have r: "run (quote_only (Fin 150))
     [UpdateTicker ''r1'' ''AAPL'', FetchStart, UpdateTicker ''r1'' ''MSFT'', FetchSettle 0]
     (init_state ''r1'') =
     Inr \<lparr>assets = [\<lparr>id_key = ''r1'', ticker = ''MSFT'', shares = Fin 0,
                      currentPrice = Some (Fin 150), targetPrice = Fin 0, loading = False,
                      error = None\<rparr>],
          inflight = []\<rparr>"
    by code_simp
  have i: "reachable (quote_only (Fin 150)) (init_state ''r1'')"
    by (rule reachable_init)
  have n: "\<forall>i. AddRow i \<notin> set [UpdateTicker ''r1'' ''AAPL'', FetchStart,
             UpdateTicker ''r1'' ''MSFT'', FetchSettle 0]"
    by simp
  have reach: "reachable (quote_only (Fin 150))
     \<lparr>assets = [\<lparr>id_key = ''r1'', ticker = ''MSFT'', shares = Fin 0,
                  currentPrice = Some (Fin 150), targetPrice = Fin 0, loading = False,
                  error = None\<rparr>],
      inflight = []\<rparr>"
    using i n r by (rule run_reachable)
  have a: "fst (fetchCurrentPrice (quote_only (Fin 150)) ''AAPL'') = Inr (Some (Fin 150))"
    by code_simp
  have m: "fst (fetchCurrentPrice (quote_only (Fin 150)) ''MSFT'') = Inr None"
    by code_simp
  from r reach a m show ?thesis by blast
qed

subsection \<open>Derived values\<close>













end
